theory Spec2Isabelle
  imports Complex_Main "HOL-Library.Sublist"
begin

section \<open>The albumentations adapter of icevision\<close>

text \<open>
  A shallow embedding of \<^verbatim>\<open>icevision/tfms/albumentations/tfms.py\<close>.
  Python numbers that may be floats (box and keypoint coordinates, visibility flags)
  are the rationals they denote; image sides and size bounds are Python ints.
\<close>

type_synonym num = rat

type_synonym xyxy = "num \<times> num \<times> num \<times> num"

datatype error =
    AssertionError
  | ZeroDivisionError
  | IndexError
  | ValueError
  | NameError
  | AttributeError

subsection \<open>Geometry filters\<close>

text \<open>
  \<^verbatim>\<open>filter_boxes(xyxy, h, w)\<close>, lines 234-245. \<^verbatim>\<open>//\<close> is floor division,
  which is \<open>div\<close> on \<open>int\<close>.
\<close>

definition filter_boxes :: "xyxy \<Rightarrow> int \<Rightarrow> int \<Rightarrow> xyxy" where
  "filter_boxes b h w =
     (case b of (x1, y1, x2, y2) \<Rightarrow>
        if w \<ge> h then
          (let pad = (w - h) div 2; h1 = pad; h2 = w - pad
           in (x1, max y1 (of_int h1), x2, min y2 (of_int h2)))
        else
          (let pad = (h - w) div 2; w1 = pad; w2 = h - pad
           in (max x1 (of_int w1), y1, min x2 (of_int w2), y2)))"

text \<open>
  \<^verbatim>\<open>_check_kps_coords(p, h, w)\<close>, lines 271-282: \<^verbatim>\<open>int(...)\<close> of the
  conjunction, so 1 or 0. (Isabelle names cannot start with an underscore.)
\<close>

definition check_kps_coords :: "num \<times> num \<Rightarrow> int \<Rightarrow> int \<Rightarrow> int" where
  "check_kps_coords p h w =
     (case p of (x, y) \<Rightarrow>
        if w \<ge> h then
          (let pad = (w - h) div 2; h1 = pad; h2 = w - pad
           in if x \<le> of_int w \<and> x \<ge> 0 \<and> y \<ge> of_int h1 \<and> y \<le> of_int h2 then 1 else 0)
        else
          (let pad = (h - w) div 2; w1 = pad; w2 = h - pad
           in if x \<le> of_int w2 \<and> x \<ge> of_int w1 \<and> y \<ge> 0 \<and> y \<le> of_int h then 1 else 0))"

text \<open>
  \<^verbatim>\<open>filter_keypoints(tfms_kps, h, w, v)\<close>, lines 220-231. The loop runs over the
  indices of \<^verbatim>\<open>tfms_kps\<close> and reads \<^verbatim>\<open>v[i]\<close>, which raises IndexError when
  \<^verbatim>\<open>v\<close> is the shorter list; surplus entries of \<^verbatim>\<open>v\<close> are never read.
  \<open>kp_step\<close> is one iteration of the loop body.
\<close>

definition kp_step :: "num \<times> num \<Rightarrow> int \<Rightarrow> int \<Rightarrow> num \<Rightarrow> num \<times> num \<times> num" where
  "kp_step p h w vi =
     (let v_n = (if vi > 0
                 then (let c = check_kps_coords p h w in if c = 1 then vi else of_int c)
                 else vi);
          tra = (if v_n = 0 then (0, 0) else p)
      in (fst tra, snd tra, v_n))"

fun filter_keypoints ::
  "(num \<times> num) list \<Rightarrow> int \<Rightarrow> int \<Rightarrow> num list \<Rightarrow> error + (num \<times> num \<times> num) list" where
  "filter_keypoints [] h w v = Inr []"
| "filter_keypoints (p # ps) h w [] = Inl IndexError"
| "filter_keypoints (p # ps) h w (vi # vs) =
     (case filter_keypoints ps h w vs of
        Inl e \<Rightarrow> Inl e
      | Inr r \<Rightarrow> Inr (kp_step p h w vi # r))"

subsection \<open>Size arithmetic\<close>

text \<open>
  Python 3's built-in \<^verbatim>\<open>round(x)\<close> of a float: the nearest integer, a tie going to
  the even one.
\<close>

definition py_round :: "rat \<Rightarrow> int" where
  "py_round x =
     (let f = \<lfloor>x\<rfloor>; d = x - of_int f
      in if d < 1 / 2 then f
         else if d > 1 / 2 then f + 1
         else if even f then f else f + 1)"

text \<open>\<^verbatim>\<open>py3round(number)\<close>, lines 248-253.\<close>

definition py3round :: "rat \<Rightarrow> int" where
  "py3round number =
     (if \<bar>of_int (py_round number) - number\<bar> = 1 / 2
      then 2 * py_round (number / 2)
      else py_round number)"

text \<open>
  \<^verbatim>\<open>_func_max_size(height, width, max_size, func)\<close>, lines 256-261. The quotient and
  the products are float operations: \<open>fl\<close> is the rounding of an exact result to the
  float that represents it, and every statement below holds for every \<open>fl\<close>. A float
  division by zero raises ZeroDivisionError.
\<close>

definition func_max_size ::
  "(rat \<Rightarrow> rat) \<Rightarrow> int \<Rightarrow> int \<Rightarrow> int \<Rightarrow> (int \<Rightarrow> int \<Rightarrow> int) \<Rightarrow> error + (int \<times> int)" where
  "func_max_size fl height width max_size func =
     (let side = fl (of_int (func width height))
      in if side = 0 then Inl ZeroDivisionError
         else
           (let scale = fl (fl (of_int max_size) / side)
            in if scale \<noteq> 1
               then Inr (py3round (fl (fl (of_int height) * scale)),
                         py3round (fl (fl (of_int width) * scale)))
               else Inr (height, width)))"

text \<open>
  The spec's rounding rule, in its own words: \<open>r\<close> is \<open>x\<close> rounded half to even when
  \<open>r\<close> is a nearest integer of \<open>x\<close> and, on a tie, the even one.
\<close>

definition round_half_even :: "rat \<Rightarrow> int \<Rightarrow> bool" where
  "round_half_even x r =
     (\<bar>of_int r - x\<bar> < 1 / 2 \<or> (\<bar>of_int r - x\<bar> = 1 / 2 \<and> even r))"

subsection \<open>Transforms and the pipeline builders\<close>

text \<open>
  The albumentations transform objects this file builds or inspects. \<open>Transform\<close>
  stands for any other transform object: the text of \<^verbatim>\<open>str(type(el))\<close> and its
  probability \<^verbatim>\<open>p\<close>. \<open>OneOrOther first second p\<close> is
  \<^verbatim>\<open>A.OneOrOther(first, second, p=p)\<close>; \<open>PadIfNeeded min_height min_width\<close>,
  \<open>LongestMaxSize max_size\<close>, \<open>SmallestMaxSize max_size\<close> and
  \<open>Resize height width\<close> carry the arguments the file passes, and
  \<open>RandomSizedBBoxSafeCrop height width p\<close> is the crop of the default
  \<^verbatim>\<open>crop_fn\<close>, line 32.
\<close>

datatype tfm =
    LongestMaxSize int
  | SmallestMaxSize int
  | Resize int int
  | PadIfNeeded int int
  | RandomSizedBBoxSafeCrop int int rat
  | OneOrOther tfm tfm rat
  | Transform string rat

text \<open>
  \<^verbatim>\<open>str(type(el))\<close>: the class name with its module path. No module path of
  albumentations contains one of the four names \<open>get_transform\<close> is asked for.
\<close>

fun type_str :: "tfm \<Rightarrow> string" where
  "type_str (LongestMaxSize m) = ''albumentations.LongestMaxSize''"
| "type_str (SmallestMaxSize m) = ''albumentations.SmallestMaxSize''"
| "type_str (Resize h w) = ''albumentations.Resize''"
| "type_str (PadIfNeeded h w) = ''albumentations.PadIfNeeded''"
| "type_str (RandomSizedBBoxSafeCrop h w q) = ''albumentations.RandomSizedBBoxSafeCrop''"
| "type_str (OneOrOther a b q) = ''albumentations.OneOrOther''"
| "type_str (Transform s q) = s"

text \<open>The attribute \<^verbatim>\<open>p\<close>; the resize and pad classes are built with their default 1.\<close>

fun p_of :: "tfm \<Rightarrow> rat" where
  "p_of (OneOrOther a b q) = q"
| "p_of (RandomSizedBBoxSafeCrop h w q) = q"
| "p_of (Transform s q) = q"
| "p_of t = 1"

text \<open>The attribute \<^verbatim>\<open>max_size\<close>, which only the two ratio resizes are known to have.\<close>

fun max_size_of :: "tfm \<Rightarrow> int option" where
  "max_size_of (LongestMaxSize m) = Some m"
| "max_size_of (SmallestMaxSize m) = Some m"
| "max_size_of t = None"

text \<open>\<^verbatim>\<open>t in s\<close> on strings: \<open>t\<close> occurs in \<open>s\<close> as a contiguous piece.\<close>

fun str_in :: "string \<Rightarrow> string \<Rightarrow> bool" where
  "str_in t [] = (t = [])"
| "str_in t (c # cs) = (prefix t (c # cs) \<or> str_in t cs)"

text \<open>\<^verbatim>\<open>get_transform(tfms_list, t)\<close>, lines 264-268.\<close>

fun get_transform :: "tfm list \<Rightarrow> string \<Rightarrow> tfm option" where
  "get_transform [] t = None"
| "get_transform (el # els) t = (if str_in t (type_str el) then Some el else get_transform els t)"

text \<open>
  \<^verbatim>\<open>size: Union[int, Tuple[int, int]]\<close>, and \<^verbatim>\<open>_resize(size, ratio_resize)\<close>,
  lines 10-11.
\<close>

datatype img_size = IntSize int | TupleSize int int

fun resize :: "img_size \<Rightarrow> (int \<Rightarrow> tfm) \<Rightarrow> tfm" where
  "resize (IntSize n) ratio_resize = ratio_resize n"
| "resize (TupleSize h w) ratio_resize = Resize h w"

fun height_width :: "img_size \<Rightarrow> int \<times> int" where
  "height_width (IntSize n) = (n, n)"
| "height_width (TupleSize h w) = (h, w)"

text \<open>
  \<^verbatim>\<open>resize_and_pad(size, pad)\<close>, lines 14-21; \<open>pad\<close> is the partial that still
  takes \<^verbatim>\<open>min_height\<close> and \<^verbatim>\<open>min_width\<close>.
\<close>

definition resize_and_pad :: "img_size \<Rightarrow> (int \<Rightarrow> int \<Rightarrow> tfm) \<Rightarrow> tfm list" where
  "resize_and_pad sz pad =
     (case height_width sz of (height, width) \<Rightarrow>
        [resize sz LongestMaxSize, pad height width])"

text \<open>
  \<^verbatim>\<open>aug_tfms\<close>, lines 24-80. A step passed as \<^verbatim>\<open>None\<close> is \<open>None\<close>;
  \<open>crop_fn\<close> still takes \<^verbatim>\<open>height\<close> and \<^verbatim>\<open>width\<close>. The list is built with its
  \<^verbatim>\<open>None\<close> entries and filtered at the end, as in the source.
\<close>

definition aug_tfms ::
  "img_size \<Rightarrow> img_size option \<Rightarrow> tfm option \<Rightarrow> tfm option \<Rightarrow> tfm option \<Rightarrow> tfm option \<Rightarrow> tfm option
     \<Rightarrow> (int \<Rightarrow> int \<Rightarrow> tfm) option \<Rightarrow> (int \<Rightarrow> int \<Rightarrow> tfm) option \<Rightarrow> tfm list" where
  "aug_tfms sz presize horizontal_flip shift_scale_rotate rgb_shift lightning blur crop_fn pad =
     (case height_width sz of (height, width) \<Rightarrow>
        (let tfms0 = [];
             tfms1 = tfms0 @ [case presize of Some ps \<Rightarrow> Some (resize ps SmallestMaxSize)
                                            | None \<Rightarrow> None];
             tfms2 = tfms1 @ [horizontal_flip, shift_scale_rotate, rgb_shift, lightning, blur];
             tfms3 = (case crop_fn of
                        Some f \<Rightarrow>
                          (let crop = f height width
                           in tfms2 @ [Some (OneOrOther crop (resize sz LongestMaxSize) (p_of crop))])
                      | None \<Rightarrow> tfms2 @ [Some (resize sz LongestMaxSize)]);
             tfms4 = tfms3 @ [case pad of Some g \<Rightarrow> Some (g height width) | None \<Rightarrow> None]
         in map the (filter (\<lambda>tfm. tfm \<noteq> None) tfms4)))"

subsection \<open>The adapter\<close>

text \<open>
  Modelled from the spec: the classes \<^verbatim>\<open>KeyPoints\<close>, \<^verbatim>\<open>BBox\<close> and
  \<^verbatim>\<open>MaskArray\<close> of \<^verbatim>\<open>icevision.core\<close> are not part of this file. A keypoint set
  is an ordered list of points with a parallel list of per-point labels and
  visibilities: \<open>KeyPoints\<close> holds the three attributes \<^verbatim>\<open>apply\<close> reads
  (\<^verbatim>\<open>o.xy\<close>, \<^verbatim>\<open>o.labels\<close>, \<^verbatim>\<open>o.visible\<close>), and \<open>from_xyv\<close> holds the two
  arguments \<^verbatim>\<open>apply\<close> passes to \<^verbatim>\<open>KeyPoints.from_xyv\<close>, a flat list of numbers
  and a label list. A box is its four coordinates (\<^verbatim>\<open>o.xyxy\<close>,
  \<^verbatim>\<open>BBox.from_xyxy\<close>), a mask array is the list of its masks, and an image is its
  \<^verbatim>\<open>shape\<close>.
\<close>

record KeyPoints =
  kp_xy :: "(num \<times> num) list"
  kp_labels :: "string list"
  kp_visible :: "num list"

datatype KeyPoints_xyv = from_xyv "num list" "string list"

text \<open>
  The keyword arguments \<^verbatim>\<open>params\<close> handed to the composed pipeline, and the dict
  \<open>d\<close> it returns. A key that \<^verbatim>\<open>apply\<close> does not set is \<open>None\<close>. The pipeline returns
  every key it was given.
\<close>

record 'm params =
  p_image :: "int list"
  p_labels :: "nat list"
  p_bboxes :: "xyxy list"
  p_keypoints :: "(num \<times> num) list option"
  p_keypoints_labels :: "string list option"
  p_masks :: "'m list option"

record 'm compose_out =
  d_image :: "int list"
  d_labels :: "nat list"
  d_bboxes :: "xyxy list"
  d_keypoints :: "(num \<times> num) list"
  d_masks :: "'m list"

text \<open>
  The adapter object: the operation list \<^verbatim>\<open>self.tfms.transforms.transforms\<close> and
  the keys of the dict \<^verbatim>\<open>self.tfms.processors\<close>. \<^verbatim>\<open>Adapter.__init__\<close>, lines
  90-99, passes both \<^verbatim>\<open>bbox_params\<close> and \<^verbatim>\<open>keypoint_params\<close>, so both
  processors are registered.
\<close>

record adapter =
  tfms_list :: "tfm list"
  processors :: "string set"

definition Adapter :: "tfm list \<Rightarrow> adapter" where
  "Adapter tfms = \<lparr>tfms_list = tfms, processors = {''bboxes'', ''keypoints''}\<rparr>"

text \<open>The dict \<open>out\<close> that \<^verbatim>\<open>apply\<close> returns; a key it does not set is \<open>None\<close>.\<close>

record 'm out =
  out_img :: "int list"
  out_height :: int
  out_width :: int
  out_keypoints :: "KeyPoints_xyv list option"
  out_labels :: "int list option"
  out_bboxes :: "xyxy list option"
  out_masks :: "'m list option"
  out_iscrowds :: "int list option"

text \<open>Sequencing of steps that may raise: the first error ends the call.\<close>

definition bind_err :: "error + 'a \<Rightarrow> ('a \<Rightarrow> error + 'b) \<Rightarrow> error + 'b" where
  "bind_err m f = (case m of Inl e \<Rightarrow> Inl e | Inr x \<Rightarrow> f x)"

text \<open>
  Lines 134-139 and 141-146: one bound found in the operation list rescales the
  running content size. Reading \<^verbatim>\<open>max_size\<close> on an object without it raises
  AttributeError.
\<close>

definition rescale ::
  "(rat \<Rightarrow> rat) \<Rightarrow> tfm list \<Rightarrow> string \<Rightarrow> (int \<Rightarrow> int \<Rightarrow> int) \<Rightarrow> int \<times> int \<Rightarrow> error + (int \<times> int)" where
  "rescale fl ops name func hw =
     (case get_transform ops name of
        None \<Rightarrow> Inr hw
      | Some t \<Rightarrow>
          (case max_size_of t of
             None \<Rightarrow> Inl AttributeError
           | Some m \<Rightarrow> func_max_size fl (fst hw) (snd hw) m func))"

text \<open>
  Lines 131-146, the body of \<^verbatim>\<open>if get_transform(tfms_list, "Pad") is not None\<close>:
  the content size before padding. Unpacking \<^verbatim>\<open>img.shape[:2]\<close> into two names
  raises ValueError on an array of fewer than two dimensions.
\<close>

definition content_size :: "(rat \<Rightarrow> rat) \<Rightarrow> tfm list \<Rightarrow> int list \<Rightarrow> error + (int \<times> int)" where
  "content_size fl ops shape =
     (case shape of
        height_size # width_size # rest \<Rightarrow>
          bind_err (rescale fl ops ''SmallestMaxSize'' min (height_size, width_size))
            (\<lambda>hw. rescale fl ops ''LongestMaxSize'' max hw)
      | _ \<Rightarrow> Inl ValueError)"

text \<open>
  Lines 119-146, the body of the first \<^verbatim>\<open>if keypoints is not None\<close>: the flat lists
  \<open>k\<close>, \<open>c\<close>, \<open>v\<close> and the names \<^verbatim>\<open>height_size, width_size\<close>, which are bound only
  here and only when the list has a pad (\<open>None\<close> is the unbound name).
\<close>

definition flatten_keypoints ::
  "(rat \<Rightarrow> rat) \<Rightarrow> tfm list \<Rightarrow> int list \<Rightarrow> KeyPoints list
     \<Rightarrow> error + ((num \<times> num) list \<times> string list \<times> num list \<times> (int \<times> int) option)" where
  "flatten_keypoints fl ops shape keypoints =
     (if get_transform ops ''OneOrOther'' \<noteq> None then Inl AssertionError
      else
        (let k = concat (map kp_xy keypoints);
             c = concat (map kp_labels keypoints);
             v = concat (map kp_visible keypoints)
         in if \<not> (length k = length c \<and> length c = length v) then Inl AssertionError
            else if get_transform ops ''Pad'' \<noteq> None
            then bind_err (content_size fl ops shape) (\<lambda>hw. Inr (k, c, v, Some hw))
            else Inr (k, c, v, None)))"

text \<open>
  \<^verbatim>\<open>[l[i : i + n] for i in range(0, len(l), n)]\<close>: consecutive pieces of \<open>n\<close>
  elements, the last one possibly shorter.
\<close>

function chunks :: "nat \<Rightarrow> 'a list \<Rightarrow> 'a list list" where
  "chunks n xs = (if n = 0 \<or> xs = [] then [] else take n xs # chunks n (drop n xs))"
  by pat_completeness auto
termination
  by (relation "measure (\<lambda>(n, xs). length xs)") auto

declare chunks.simps [simp del]

text \<open>
  Lines 171-176. The step \<^verbatim>\<open>len(l) // len(keypoints)\<close> raises ZeroDivisionError for
  an empty \<^verbatim>\<open>keypoints\<close>, and \<^verbatim>\<open>range\<close> raises ValueError for a step of 0.
\<close>

definition regroup :: "num list \<Rightarrow> nat \<Rightarrow> error + num list list" where
  "regroup l n_keypoints =
     (if n_keypoints = 0 then Inl ZeroDivisionError
      else
        (let step = length l div n_keypoints
         in if step = 0 then Inl ValueError
            else (let g = chunks step l
                  in if length g \<noteq> n_keypoints then Inl AssertionError else Inr g)))"

text \<open>\<^verbatim>\<open>list(chain.from_iterable(tfms_kps_n))\<close>, line 171.\<close>

definition flat3 :: "(num \<times> num \<times> num) list \<Rightarrow> num list" where
  "flat3 ts = concat (map (\<lambda>(x, y, vis). [x, y, vis]) ts)"

text \<open>
  Lines 163-176: the groups \<open>l\<close>. With a pad the filter uses
  \<^verbatim>\<open>height_size, width_size\<close>, otherwise the size of the output image.
\<close>

definition kp_groups ::
  "tfm list \<Rightarrow> (num \<times> num) list \<Rightarrow> num list \<Rightarrow> (int \<times> int) option \<Rightarrow> nat
     \<Rightarrow> (num \<times> num) list \<Rightarrow> int \<Rightarrow> int \<Rightarrow> error + num list list" where
  "kp_groups ops k v hs n_keypoints tfms_kps height width =
     (if length tfms_kps \<noteq> length k then Inl AssertionError
      else
        bind_err
          (if get_transform ops ''Pad'' \<noteq> None
           then (case hs of
                   None \<Rightarrow> Inl NameError
                 | Some (height_size, width_size) \<Rightarrow>
                     filter_keypoints tfms_kps height_size width_size v)
           else filter_keypoints tfms_kps height width v)
          (\<lambda>tfms_kps_n. regroup (flat3 tfms_kps_n) n_keypoints))"

text \<open>\<^verbatim>\<open>[xs[i] for i in idxs]\<close>; an index out of range raises IndexError.\<close>

definition index_all :: "'a list \<Rightarrow> nat list \<Rightarrow> error + 'a list" where
  "index_all xs idxs =
     (if list_all (\<lambda>i. i < length xs) idxs then Inr (map (\<lambda>i. xs ! i) idxs) else Inl IndexError)"

text \<open>\<^verbatim>\<open>[x for x, k in zip(xs, l) if sum(k) > 0]\<close>.\<close>

definition keep :: "num list list \<Rightarrow> 'a list \<Rightarrow> 'a list" where
  "keep l xs = map fst (filter (\<lambda>(x, k). sum_list k > 0) (zip xs l))"

text \<open>
  Lines 187-198: the list \<open>bb\<close>. With a pad the comprehension reads
  \<^verbatim>\<open>height_size\<close>, which raises NameError when the name is unbound and the
  pipeline returned at least one box.
\<close>

definition clip_boxes ::
  "tfm list \<Rightarrow> (int \<times> int) option \<Rightarrow> xyxy list \<Rightarrow> int \<Rightarrow> int \<Rightarrow> error + xyxy list" where
  "clip_boxes ops hs boxes height width =
     (if get_transform ops ''Pad'' \<noteq> None
      then (if boxes = [] then Inr []
            else (case hs of
                    None \<Rightarrow> Inl NameError
                  | Some (height_size, width_size) \<Rightarrow>
                      Inr (map (\<lambda>b. filter_boxes b height_size width_size) boxes)))
      else Inr (map (\<lambda>b. filter_boxes b height width) boxes))"

text \<open>
  \<^verbatim>\<open>if field is not None: out[field] = ...\<close>: a field that was not supplied is not
  set, and a supplied one is set unless its computation raises.
\<close>

definition optionally :: "'a option \<Rightarrow> ('a \<Rightarrow> error + 'b) \<Rightarrow> error + 'b option" where
  "optionally field f =
     (case field of
        None \<Rightarrow> Inr None
      | Some x \<Rightarrow> bind_err (f x) (\<lambda>r. Inr (Some r)))"

text \<open>
  Lines 162-180: the groups \<open>l\<close> and \<^verbatim>\<open>out["keypoints"]\<close>, every group of positive
  sum with the labels of the first instance.
\<close>

definition rebuild_keypoints ::
  "tfm list \<Rightarrow> KeyPoints list \<Rightarrow> (num \<times> num) list \<Rightarrow> num list \<Rightarrow> (int \<times> int) option
     \<Rightarrow> (num \<times> num) list \<Rightarrow> int \<Rightarrow> int \<Rightarrow> error + (num list list \<times> KeyPoints_xyv list)" where
  "rebuild_keypoints ops keypoints k v hs tfms_kps height width =
     bind_err (kp_groups ops k v hs (length keypoints) tfms_kps height width)
       (\<lambda>l. case keypoints of
               [] \<Rightarrow> Inl IndexError
             | kp0 # others \<Rightarrow>
                 Inr (l, map (\<lambda>g. from_xyv g (kp_labels kp0))
                           (filter (\<lambda>g. sum_list g > 0) l)))"

text \<open>
  Lines 181-186, 204-209 and 211-216: a field indexed by \<^verbatim>\<open>d["labels"]\<close>. It is
  first rebuilt from every index (which may raise IndexError) and then, with
  keypoints, from the indices that \<^verbatim>\<open>zip(d["labels"], l)\<close> pairs with a group of
  positive sum.
\<close>

definition rebuild :: "'a list \<Rightarrow> nat list \<Rightarrow> num list list option \<Rightarrow> error + 'a list" where
  "rebuild xs idxs l =
     bind_err (index_all xs idxs)
       (\<lambda>every. Inr (case l of
                       None \<Rightarrow> every
                     | Some g \<Rightarrow> map (\<lambda>i. xs ! i) (keep g idxs)))"

text \<open>Lines 187-203: the boxes, clipped, and with keypoints filtered through the groups.\<close>

definition rebuild_boxes ::
  "tfm list \<Rightarrow> (int \<times> int) option \<Rightarrow> xyxy list \<Rightarrow> int \<Rightarrow> int \<Rightarrow> num list list option
     \<Rightarrow> error + xyxy list" where
  "rebuild_boxes ops hs boxes height width l =
     bind_err (clip_boxes ops hs boxes height width)
       (\<lambda>bb. Inr (case l of None \<Rightarrow> bb | Some g \<Rightarrow> keep g bb))"

text \<open>
  Lines 158-217, output reconstruction from the dict \<open>d\<close>. \<open>kp\<close> carries
  \<^verbatim>\<open>keypoints\<close>, \<open>k\<close> and \<open>v\<close> when keypoints were supplied, \<open>hs\<close> the names
  \<^verbatim>\<open>height_size, width_size\<close>. Unpacking the output shape into three names raises
  ValueError unless the image has three dimensions.
\<close>

definition reconstruct ::
  "tfm list \<Rightarrow> int list option \<Rightarrow> xyxy list option \<Rightarrow> 'm list option \<Rightarrow> int list option
     \<Rightarrow> (KeyPoints list \<times> (num \<times> num) list \<times> num list) option \<Rightarrow> (int \<times> int) option
     \<Rightarrow> 'm compose_out \<Rightarrow> error + 'm out" where
  "reconstruct ops labels bboxes masks iscrowds kp hs d =
     (case d_image d of
        [height, width, channels] \<Rightarrow>
          bind_err
            (optionally kp (\<lambda>(keypoints, k, v).
               rebuild_keypoints ops keypoints k v hs (d_keypoints d) height width))
            (\<lambda>kps.
               let l = map_option fst kps
               in bind_err (optionally labels (\<lambda>ls. rebuild ls (d_labels d) l))
                 (\<lambda>labels'.
                    bind_err
                      (optionally bboxes
                         (\<lambda>bs. rebuild_boxes ops hs (d_bboxes d) height width l))
                      (\<lambda>bboxes'.
                         bind_err
                           (optionally masks (\<lambda>ms. rebuild (d_masks d) (d_labels d) l))
                           (\<lambda>masks'.
                              bind_err (optionally iscrowds (\<lambda>cs. rebuild cs (d_labels d) l))
                                (\<lambda>iscrowds'.
                                   Inr \<lparr>out_img = d_image d,
                                        out_height = height,
                                        out_width = width,
                                        out_keypoints = map_option snd kps,
                                        out_labels = labels',
                                        out_bboxes = bboxes',
                                        out_masks = masks',
                                        out_iscrowds = iscrowds'\<rparr>)))))
      | _ \<Rightarrow> Inl ValueError)"

text \<open>
  \<^verbatim>\<open>Adapter.apply\<close>, lines 101-217. \<open>run\<close> is the call of the composed pipeline,
  \<^verbatim>\<open>self.tfms(**params)\<close>, for the random draw of this call: an external function
  of the registered processors and of \<open>params\<close>, which returns the dict \<open>d\<close> or raises.
  \<open>fl\<close> is the float rounding of \<open>func_max_size\<close>. The result is what the call returns
  or raises, and the adapter as the call leaves it: \<^verbatim>\<open>processors.pop\<close> on lines
  151-154 removes a key from the adapter's own dict.
\<close>

definition Adapter_apply ::
  "(rat \<Rightarrow> rat) \<Rightarrow> (string set \<Rightarrow> 'm params \<Rightarrow> error + 'm compose_out) \<Rightarrow> adapter \<Rightarrow> int list
     \<Rightarrow> int list option \<Rightarrow> xyxy list option \<Rightarrow> 'm list option \<Rightarrow> int list option
     \<Rightarrow> KeyPoints list option \<Rightarrow> (error + 'm out) \<times> adapter" where
  "Adapter_apply fl run self img labels bboxes masks iscrowds keypoints =
     (let ops = tfms_list self
      in case (case keypoints of
                 None \<Rightarrow> Inr (None, None, None)
               | Some kps \<Rightarrow>
                   bind_err (flatten_keypoints fl ops img kps)
                     (\<lambda>(k, c, v, hs). Inr (Some (kps, k, v), Some c, hs))) of
           Inl e \<Rightarrow> (Inl e, self)
         | Inr (kp, c, hs) \<Rightarrow>
             (let params =
                    \<lparr>p_image = img,
                     p_labels = (case labels of Some ls \<Rightarrow> [0..<length ls] | None \<Rightarrow> []),
                     p_bboxes = (case bboxes of Some bs \<Rightarrow> bs | None \<Rightarrow> []),
                     p_keypoints = map_option (\<lambda>(kps, k, v). k) kp,
                     p_keypoints_labels = c,
                     p_masks = masks\<rparr>;
                  self1 = (if bboxes = None
                           then self\<lparr>processors := processors self - {''bboxes''}\<rparr>
                           else self);
                  self2 = (if keypoints = None
                           then self1\<lparr>processors := processors self1 - {''keypoints''}\<rparr>
                           else self1)
              in (bind_err (run (processors self2) params)
                    (\<lambda>d. reconstruct ops labels bboxes masks iscrowds kp hs d),
                  self2)))"

text \<open>
  A pipeline that changes nothing (an operation list whose steps all leave the sample
  as it is): it returns what it was given. While the box processor is registered, the
  composed pipeline first checks that the label field \<^verbatim>\<open>labels\<close> is as long as
  \<^verbatim>\<open>bboxes\<close> and raises AssertionError otherwise.
\<close>

definition unchanged :: "string set \<Rightarrow> 'm params \<Rightarrow> error + 'm compose_out" where
  "unchanged procs ps =
     (if ''bboxes'' \<in> procs \<and> length (p_labels ps) \<noteq> length (p_bboxes ps)
      then Inl AssertionError
      else Inr \<lparr>d_image = p_image ps,
                d_labels = p_labels ps,
                d_bboxes = p_bboxes ps,
                d_keypoints = (case p_keypoints ps of Some k \<Rightarrow> k | None \<Rightarrow> []),
                d_masks = (case p_masks ps of Some ms \<Rightarrow> ms | None \<Rightarrow> [])\<rparr>)"

text \<open>
  A pipeline whose draw shifts the sample 100 pixels to the left, as
  \<^verbatim>\<open>ShiftScaleRotate\<close> can: a box is clipped to the image and removed, with its
  label index, when nothing of it is left; every keypoint is returned
  (\<^verbatim>\<open>remove_invisible=False\<close>).
\<close>

definition shift_left :: "string set \<Rightarrow> 'm params \<Rightarrow> error + 'm compose_out" where
  "shift_left procs ps =
     (let moved = map (\<lambda>((x1, y1, x2, y2), i). ((max 0 (x1 - 100), y1, x2 - 100, y2), i))
                    (zip (p_bboxes ps) (p_labels ps));
          kept = filter (\<lambda>((x1, y1, x2, y2), i). x2 > 0) moved
      in Inr \<lparr>d_image = p_image ps,
              d_labels = map snd kept,
              d_bboxes = map fst kept,
              d_keypoints = map (\<lambda>(x, y). (x - 100, y))
                              (case p_keypoints ps of Some k \<Rightarrow> k | None \<Rightarrow> []),
              d_masks = (case p_masks ps of Some ms \<Rightarrow> ms | None \<Rightarrow> [])\<rparr>)"

text \<open>The operation list of \<open>aug_tfms\<close> with its default crop and pad, for size 384.\<close>

definition crop_ops :: "tfm list" where
  "crop_ops = aug_tfms (IntSize 384) None None None None None None
      (Some (\<lambda>height width. RandomSizedBBoxSafeCrop height width (1 / 2)))
      (Some PadIfNeeded)"

section \<open>Properties\<close>

subsection \<open>Box clipping\<close>

text \<open>
  C4, as stated, requires both y coordinates of every clipped box to lie in [100, 400]
  for a 300x500 content region. A box lying wholly below the content band keeps its
  upper edge: only the lower bound is applied to y1 and only the upper bound to y2.
\<close>

theorem filter_boxes_band_counterexample:
  "\<not> (\<forall>x1 y1 x2 y2. case filter_boxes (x1, y1, x2, y2) 300 500 of
        (a, y1', c, y2') \<Rightarrow> 100 \<le> y1' \<and> y1' \<le> 400 \<and> 100 \<le> y2' \<and> y2' \<le> 400)"
proof
  assume a: "\<forall>x1 y1 x2 y2. case filter_boxes (x1, y1, x2, y2) 300 500 of
        (a, y1', c, y2') \<Rightarrow> 100 \<le> y1' \<and> y1' \<le> 400 \<and> 100 \<le> y2' \<and> y2' \<le> 400"
  have "filter_boxes (0, 450, 10, 480) 300 500 = (0, 450, 10, 400)"
    by (simp add: filter_boxes_def)
  with a [rule_format, of 0 450 10 480] show False
    by simp
qed

text \<open>
  C4 (amended): for every box and content size, when \<open>w \<ge> h\<close> the result is
  \<open>(x1, max y1 pad, x2, min y2 (w - pad))\<close> with \<open>pad = (w - h) div 2\<close>, x untouched;
  when \<open>h > w\<close> only x is clipped, with \<open>pad = (h - w) div 2\<close>, y untouched. For a
  300x500 content region the result is \<open>(x1, max y1 100, x2, min y2 400)\<close>, so y1 is
  at least 100 and y2 at most 400, and both lie in [100, 400] exactly when the box
  meets the band (\<open>y1 \<le> 400\<close> and \<open>100 \<le> y2\<close>). Exactly one box is returned.
\<close>

theorem filter_boxes_clip:
  "filter_boxes (x1, y1, x2, y2) h w =
     (if w \<ge> h
      then (x1, max y1 (of_int ((w - h) div 2)), x2, min y2 (of_int (w - (w - h) div 2)))
      else (max x1 (of_int ((h - w) div 2)), y1, min x2 (of_int (h - (h - w) div 2)), y2))
   \<and> filter_boxes (x1, y1, x2, y2) 300 500 = (x1, max y1 100, x2, min y2 400)
   \<and> 100 \<le> max y1 100 \<and> min y2 400 \<le> 400
   \<and> ((max y1 100 \<le> 400 \<and> 100 \<le> min y2 400) = (y1 \<le> 400 \<and> 100 \<le> y2))"
  by (auto simp add: filter_boxes_def Let_def)

subsection \<open>Keypoint visibility\<close>

lemma filter_keypoints_map:
  "length ps \<le> length v \<Longrightarrow>
   filter_keypoints ps h w v = Inr (map (\<lambda>(p, vi). kp_step p h w vi) (zip ps v))"
  by (induction ps h w v rule: filter_keypoints.induct) simp_all

lemma kp_step_cases:
  "kp_step (x, y) h w vi =
     (if vi > 0 then (if check_kps_coords (x, y) h w = 1 then (x, y, vi) else (0, 0, 0))
      else if vi = 0 then (0, 0, 0) else (x, y, vi))"
  by (auto simp add: kp_step_def Let_def check_kps_coords_def)

text \<open>
  C5, as stated, speaks of every point with nonzero incoming visibility. The loop tests
  \<^verbatim>\<open>v[i] > 0\<close>: a point with a negative visibility is never re-checked, and
  it leaves with its coordinates and its visibility even when it lies outside the
  content region.
\<close>

theorem filter_keypoints_nonzero_counterexample:
  "\<not> (\<forall>ps h w v. length v = length ps \<longrightarrow>
        (\<exists>r. filter_keypoints ps h w v = Inr r \<and> length r = length ps \<and>
           (\<forall>i < length ps.
              (v ! i = 0 \<longrightarrow> snd (snd (r ! i)) = 0) \<and>
              (v ! i \<noteq> 0 \<longrightarrow>
                 (if check_kps_coords (ps ! i) h w = 1 then snd (snd (r ! i)) = v ! i
                  else r ! i = (0, 0, 0))))))"
proof
  assume a: "\<forall>ps h w v. length v = length ps \<longrightarrow>
        (\<exists>r. filter_keypoints ps h w v = Inr r \<and> length r = length ps \<and>
           (\<forall>i < length ps.
              (v ! i = 0 \<longrightarrow> snd (snd (r ! i)) = 0) \<and>
              (v ! i \<noteq> 0 \<longrightarrow>
                 (if check_kps_coords (ps ! i) h w = 1 then snd (snd (r ! i)) = v ! i
                  else r ! i = (0, 0, 0)))))"
  have e: "filter_keypoints [(600, 0)] 300 500 [- 1] = Inr [(600, 0, - 1)]"
    by (simp add: kp_step_def)
  have c: "check_kps_coords (600, 0) 300 500 = 0"
    by (simp add: check_kps_coords_def)
  from a [rule_format, of "[- 1]" "[(600, 0)]" 300 500] e c show False
    by simp
qed

text \<open>
  C5 (amended): for every point list, content size and equal-length visibility list,
  \<open>filter_keypoints\<close> returns a list of the same length of (x, y, visibility)
  triples in which a point with incoming visibility 0 becomes (0, 0, 0); a point with
  positive incoming visibility keeps its coordinates and its original visibility if
  \<open>check_kps_coords\<close> places it inside the content region, and otherwise becomes
  (0, 0, 0); a point with negative incoming visibility is returned with its
  coordinates and visibility unchanged.
\<close>

theorem filter_keypoints_visibility:
  assumes "length v = length ps"
  shows "\<exists>r. filter_keypoints ps h w v = Inr r \<and> length r = length ps \<and>
           (\<forall>i < length ps. r ! i =
              (if v ! i > 0
               then (if check_kps_coords (ps ! i) h w = 1
                     then (fst (ps ! i), snd (ps ! i), v ! i) else (0, 0, 0))
               else if v ! i = 0 then (0, 0, 0)
               else (fst (ps ! i), snd (ps ! i), v ! i)))"
proof -
  let ?r = "map (\<lambda>(p, vi). kp_step p h w vi) (zip ps v)"
  have r: "filter_keypoints ps h w v = Inr ?r"
    using assms by (simp add: filter_keypoints_map)
  have "?r ! i =
          (if v ! i > 0
           then (if check_kps_coords (ps ! i) h w = 1
                 then (fst (ps ! i), snd (ps ! i), v ! i) else (0, 0, 0))
           else if v ! i = 0 then (0, 0, 0)
           else (fst (ps ! i), snd (ps ! i), v ! i))" if "i < length ps" for i
  proof -
    have "?r ! i = kp_step (ps ! i) h w (v ! i)"
      using that assms by simp
    then show ?thesis
      using kp_step_cases [of "fst (ps ! i)" "snd (ps ! i)" h w "v ! i"] by simp
  qed
  with r assms show ?thesis by simp
qed

theorem filter_keypoints_visibility_witness:
  "length [2, 0, - 1, 1 :: rat] = length [(10, 150), (10, 150), (600, 0), (10, 10 :: rat)]
   \<and> filter_keypoints [(10, 150), (10, 150), (600, 0), (10, 10)] 300 500 [2, 0, - 1, 1]
       = Inr [(10, 150, 2), (0, 0, 0), (600, 0, - 1), (0, 0, 0)]"
  using filter_keypoints_visibility
    [of "[2, 0, - 1, 1]" "[(10, 150), (10, 150), (600, 0), (10, 10)]" 300 500]
  by (simp add: kp_step_def check_kps_coords_def)

subsection \<open>Rounding and size arithmetic\<close>

lemma floor_plus_frac:
  fixes d :: rat
  assumes "0 \<le> d" "d < 1"
  shows "\<lfloor>of_int k + d\<rfloor> = k"
  using assms by linarith

lemma py_round_rhe: "round_half_even x (py_round x)"
proof -
  define f where "f = \<lfloor>x\<rfloor>"
  define d where "d = x - of_int f"
  have d: "0 \<le> d" "d < 1" unfolding d_def f_def by linarith+
  have x: "x = of_int f + d" by (simp add: d_def)
  show ?thesis
    unfolding round_half_even_def py_round_def Let_def f_def [symmetric] d_def [symmetric]
    using d by (auto simp: x abs_if)
qed

lemma py_round_tie:
  assumes "x = of_int f + 1 / 2"
  shows "py_round x = (if even f then f else f + 1)"
proof -
  have "\<lfloor>x\<rfloor> = f" unfolding assms by linarith
  then show ?thesis by (simp add: py_round_def Let_def assms)
qed

lemma py_round_quarter:
  assumes "x = of_int k + 1 / 4"
  shows "py_round x = k"
proof -
  have "\<lfloor>x\<rfloor> = k" unfolding assms by linarith
  then show ?thesis by (simp add: py_round_def Let_def assms)
qed

lemma py_round_three_quarters:
  assumes "x = of_int k + 3 / 4"
  shows "py_round x = k + 1"
proof -
  have "\<lfloor>x\<rfloor> = k" unfolding assms by linarith
  then show ?thesis by (simp add: py_round_def Let_def assms)
qed

lemma py_round_tie_iff:
  "\<bar>of_int (py_round x) - x\<bar> = 1 / 2 \<longleftrightarrow> x - of_int \<lfloor>x\<rfloor> = 1 / 2"
proof -
  define f where "f = \<lfloor>x\<rfloor>"
  define d where "d = x - of_int f"
  have d: "0 \<le> d" "d < 1" unfolding d_def f_def by linarith+
  have x: "x = of_int f + d" by (simp add: d_def)
  show ?thesis
    unfolding py_round_def Let_def f_def [symmetric] d_def [symmetric]
    using d by (auto simp: x abs_if)
qed

lemma py3round_eq: "py3round x = py_round x"
proof (cases "x - of_int \<lfloor>x\<rfloor> = 1 / 2")
  case False
  then have "\<not> \<bar>of_int (py_round x) - x\<bar> = 1 / 2"
    using py_round_tie_iff [of x] by blast
  then show ?thesis unfolding py3round_def by (rule if_not_P)
next
  case True
  define f where "f = \<lfloor>x\<rfloor>"
  have x: "x = of_int f + 1 / 2" using True by (simp add: f_def)
  have r: "py_round x = (if even f then f else f + 1)" by (rule py_round_tie [OF x])
  have "2 * py_round (x / 2) = (if even f then f else f + 1)"
  proof (cases "even f")
    case True
    then obtain k where k: "f = 2 * k" by (auto elim: evenE)
    have "x / 2 = of_int k + 1 / 4" by (simp add: x k)
    then show ?thesis using True k by (simp add: py_round_quarter)
  next
    case False
    then obtain k where k: "f = 2 * k + 1" by (auto elim: oddE)
    have "x / 2 = of_int k + 3 / 4" by (simp add: x k)
    then show ?thesis using False k by (simp add: py_round_three_quarters)
  qed
  moreover have "\<bar>of_int (py_round x) - x\<bar> = 1 / 2"
    using True py_round_tie_iff [of x] by blast
  then have "py3round x = 2 * py_round (x / 2)"
    unfolding py3round_def by (rule if_P)
  ultimately show ?thesis using r by simp
qed

text \<open>
  C6: when the selected side is not zero (the quotient that defines the scale exists),
  \<open>func_max_size\<close> returns both dimensions multiplied by
  \<open>scale = max_size / func width height\<close> and rounded by \<open>py3round\<close> when the
  scale is not 1, and the dimensions unchanged when it is 1, in particular when
  \<open>max_size\<close> is the selected side; \<open>py3round\<close> rounds half to even: its result is a
  nearest integer, on a tie (a value of exactly x.5) the even one, so 3.5 gives 4 and 2.5
  gives 2. The result is a function of the inputs.
\<close>

theorem func_max_size_rounds:
  assumes "fl (of_int (func width height)) \<noteq> 0"
  shows "(let scale = fl (fl (of_int max_size) / fl (of_int (func width height)))
          in func_max_size fl height width max_size func =
               (if scale \<noteq> 1
                then Inr (py3round (fl (fl (of_int height) * scale)),
                          py3round (fl (fl (of_int width) * scale)))
                else Inr (height, width)))
       \<and> (\<forall>x. round_half_even x (py3round x))
       \<and> (\<forall>x. x - of_int \<lfloor>x\<rfloor> = 1 / 2 \<longrightarrow>
             even (py3round x) \<and> \<bar>of_int (py3round x) - x\<bar> = 1 / 2)
       \<and> (fl 1 = 1 \<and> max_size = func width height \<longrightarrow>
             func_max_size fl height width max_size func = Inr (height, width))
       \<and> py3round (7 / 2) = 4 \<and> py3round (5 / 2) = 2"
proof -
  have a: "(let scale = fl (fl (of_int max_size) / fl (of_int (func width height)))
          in func_max_size fl height width max_size func =
               (if scale \<noteq> 1
                then Inr (py3round (fl (fl (of_int height) * scale)),
                          py3round (fl (fl (of_int width) * scale)))
                else Inr (height, width)))"
    using assms by (simp add: func_max_size_def Let_def)
  have b: "round_half_even x (py3round x)" for x
    by (simp add: py3round_eq py_round_rhe)
  have c: "even (py3round x) \<and> \<bar>of_int (py3round x) - x\<bar> = 1 / 2"
    if "x - of_int \<lfloor>x\<rfloor> = 1 / 2" for x
  proof -
    have x: "x = of_int \<lfloor>x\<rfloor> + 1 / 2" using that by simp
    have "py_round x = (if even \<lfloor>x\<rfloor> then \<lfloor>x\<rfloor> else \<lfloor>x\<rfloor> + 1)"
      by (rule py_round_tie [OF x])
    moreover have "\<bar>of_int (py_round x) - x\<bar> = 1 / 2"
      using that py_round_tie_iff [of x] by blast
    ultimately show ?thesis by (simp add: py3round_eq)
  qed
  have d: "func_max_size fl height width max_size func = Inr (height, width)"
    if "fl 1 = 1" "max_size = func width height"
    using assms that by (simp add: func_max_size_def Let_def)
  have e: "py3round (7 / 2) = 4 \<and> py3round (5 / 2) = 2"
    using py_round_tie [of "7 / 2" 3] py_round_tie [of "5 / 2" 2]
    by (simp add: py3round_eq)
  from a b c d e show ?thesis by blast
qed

theorem func_max_size_rounds_witness:
  "(of_int (max 600 300) :: rat) \<noteq> 0
   \<and> func_max_size (\<lambda>x. x) 300 600 7 max = Inr (4, 7)
   \<and> func_max_size (\<lambda>x. x) 300 600 600 max = Inr (300, 600)"
proof -
  have "py3round (7 / 2) = 4" and "py3round 7 = 7"
    by code_simp+
  then show ?thesis
    using func_max_size_rounds [of "\<lambda>x. x" max 600 300 7]
      func_max_size_rounds [of "\<lambda>x. x" max 600 300 600]
    by simp
qed

subsection \<open>Order of the assembled pipeline\<close>

lemma keep_not_None_Cons:
  "map the (filter (\<lambda>tfm. tfm \<noteq> None) (x # xs)) =
     (case x of None \<Rightarrow> [] | Some t \<Rightarrow> [t]) @ map the (filter (\<lambda>tfm. tfm \<noteq> None) xs)"
  by (cases x) simp_all

lemma keep_Some_Cons:
  "map the (filter (\<lambda>tfm. \<exists>y. tfm = Some y) (x # xs)) =
     (case x of None \<Rightarrow> [] | Some t \<Rightarrow> [t]) @ map the (filter (\<lambda>tfm. \<exists>y. tfm = Some y) xs)"
  by (cases x) simp_all

text \<open>
  C9: \<open>aug_tfms\<close> returns, in this order, the presize resize (\<open>SmallestMaxSize\<close> of
  an int, \<open>Resize\<close> of a pair), the horizontal flip, shift/scale/rotate, the rgb
  shift, brightness/contrast and blur, each only when it was not passed as
  \<^verbatim>\<open>None\<close>; then exactly one size-fixing step, which is \<open>OneOrOther\<close> of the crop
  to \<open>size\<close> and the resize to \<open>size\<close> with the crop's own \<open>p\<close> when \<open>crop_fn\<close> is
  given and the plain resize to \<open>size\<close> otherwise; then, last, the pad to \<open>size\<close> when
  \<open>pad\<close> is given. An int \<open>size\<close> is the square of that side, resized by
  \<open>LongestMaxSize\<close>; a pair is height and width, resized by \<open>Resize\<close>.
\<close>

theorem aug_tfms_order:
  "aug_tfms (IntSize n) presize horizontal_flip shift_scale_rotate rgb_shift lightning blur
       crop_fn pad =
     (case presize of
        None \<Rightarrow> []
      | Some (IntSize m) \<Rightarrow> [SmallestMaxSize m]
      | Some (TupleSize a b) \<Rightarrow> [Resize a b])
     @ (case horizontal_flip of None \<Rightarrow> [] | Some t \<Rightarrow> [t])
     @ (case shift_scale_rotate of None \<Rightarrow> [] | Some t \<Rightarrow> [t])
     @ (case rgb_shift of None \<Rightarrow> [] | Some t \<Rightarrow> [t])
     @ (case lightning of None \<Rightarrow> [] | Some t \<Rightarrow> [t])
     @ (case blur of None \<Rightarrow> [] | Some t \<Rightarrow> [t])
     @ [case crop_fn of
          None \<Rightarrow> LongestMaxSize n
        | Some f \<Rightarrow> OneOrOther (f n n) (LongestMaxSize n) (p_of (f n n))]
     @ (case pad of None \<Rightarrow> [] | Some g \<Rightarrow> [g n n])
   \<and> aug_tfms (TupleSize h w) presize horizontal_flip shift_scale_rotate rgb_shift lightning
       blur crop_fn pad =
     (case presize of
        None \<Rightarrow> []
      | Some (IntSize m) \<Rightarrow> [SmallestMaxSize m]
      | Some (TupleSize a b) \<Rightarrow> [Resize a b])
     @ (case horizontal_flip of None \<Rightarrow> [] | Some t \<Rightarrow> [t])
     @ (case shift_scale_rotate of None \<Rightarrow> [] | Some t \<Rightarrow> [t])
     @ (case rgb_shift of None \<Rightarrow> [] | Some t \<Rightarrow> [t])
     @ (case lightning of None \<Rightarrow> [] | Some t \<Rightarrow> [t])
     @ (case blur of None \<Rightarrow> [] | Some t \<Rightarrow> [t])
     @ [case crop_fn of
          None \<Rightarrow> Resize h w
        | Some f \<Rightarrow> OneOrOther (f h w) (Resize h w) (p_of (f h w))]
     @ (case pad of None \<Rightarrow> [] | Some g \<Rightarrow> [g h w])
   \<and> p_of (RandomSizedBBoxSafeCrop h w q) = q
   \<and> p_of (Transform s q) = q
   \<and> aug_tfms (IntSize 384) (Some (IntSize 512))
         (Some (Transform ''albumentations.HorizontalFlip'' (1 / 2)))
         (Some (Transform ''albumentations.ShiftScaleRotate'' (1 / 2)))
         (Some (Transform ''albumentations.RGBShift'' (1 / 2)))
         (Some (Transform ''albumentations.RandomBrightnessContrast'' (1 / 2)))
         (Some (Transform ''albumentations.Blur'' (1 / 2)))
         (Some (\<lambda>height width. RandomSizedBBoxSafeCrop height width (3 / 10)))
         (Some PadIfNeeded)
       = [SmallestMaxSize 512,
          Transform ''albumentations.HorizontalFlip'' (1 / 2),
          Transform ''albumentations.ShiftScaleRotate'' (1 / 2),
          Transform ''albumentations.RGBShift'' (1 / 2),
          Transform ''albumentations.RandomBrightnessContrast'' (1 / 2),
          Transform ''albumentations.Blur'' (1 / 2),
          OneOrOther (RandomSizedBBoxSafeCrop 384 384 (3 / 10)) (LongestMaxSize 384) (3 / 10),
          PadIfNeeded 384 384]
   \<and> aug_tfms (TupleSize 256 320) (Some (TupleSize 512 640)) None None None None None
         (Some (\<lambda>height width. RandomSizedBBoxSafeCrop height width (1 / 2)))
         (Some PadIfNeeded)
       = [Resize 512 640,
          OneOrOther (RandomSizedBBoxSafeCrop 256 320 (1 / 2)) (Resize 256 320) (1 / 2),
          PadIfNeeded 256 320]
   \<and> aug_tfms (TupleSize 256 320) None None None None None None None None
       = [Resize 256 320]"
proof -
  have a: "aug_tfms (IntSize n) presize horizontal_flip shift_scale_rotate rgb_shift lightning
       blur crop_fn pad =
     (case presize of
        None \<Rightarrow> []
      | Some (IntSize m) \<Rightarrow> [SmallestMaxSize m]
      | Some (TupleSize a b) \<Rightarrow> [Resize a b])
     @ (case horizontal_flip of None \<Rightarrow> [] | Some t \<Rightarrow> [t])
     @ (case shift_scale_rotate of None \<Rightarrow> [] | Some t \<Rightarrow> [t])
     @ (case rgb_shift of None \<Rightarrow> [] | Some t \<Rightarrow> [t])
     @ (case lightning of None \<Rightarrow> [] | Some t \<Rightarrow> [t])
     @ (case blur of None \<Rightarrow> [] | Some t \<Rightarrow> [t])
     @ [case crop_fn of
          None \<Rightarrow> LongestMaxSize n
        | Some f \<Rightarrow> OneOrOther (f n n) (LongestMaxSize n) (p_of (f n n))]
     @ (case pad of None \<Rightarrow> [] | Some g \<Rightarrow> [g n n])" for n
    by (cases presize; cases crop_fn; cases pad)
      (simp_all add: aug_tfms_def Let_def keep_not_None_Cons keep_Some_Cons del: filter.simps
         split: img_size.split)
  have b: "aug_tfms (TupleSize h w) presize horizontal_flip shift_scale_rotate rgb_shift
       lightning blur crop_fn pad =
     (case presize of
        None \<Rightarrow> []
      | Some (IntSize m) \<Rightarrow> [SmallestMaxSize m]
      | Some (TupleSize a b) \<Rightarrow> [Resize a b])
     @ (case horizontal_flip of None \<Rightarrow> [] | Some t \<Rightarrow> [t])
     @ (case shift_scale_rotate of None \<Rightarrow> [] | Some t \<Rightarrow> [t])
     @ (case rgb_shift of None \<Rightarrow> [] | Some t \<Rightarrow> [t])
     @ (case lightning of None \<Rightarrow> [] | Some t \<Rightarrow> [t])
     @ (case blur of None \<Rightarrow> [] | Some t \<Rightarrow> [t])
     @ [case crop_fn of
          None \<Rightarrow> Resize h w
        | Some f \<Rightarrow> OneOrOther (f h w) (Resize h w) (p_of (f h w))]
     @ (case pad of None \<Rightarrow> [] | Some g \<Rightarrow> [g h w])" for h w
    by (cases presize; cases crop_fn; cases pad)
      (simp_all add: aug_tfms_def Let_def keep_not_None_Cons keep_Some_Cons del: filter.simps
         split: img_size.split)
  have c: "aug_tfms (IntSize 384) (Some (IntSize 512))
         (Some (Transform ''albumentations.HorizontalFlip'' (1 / 2)))
         (Some (Transform ''albumentations.ShiftScaleRotate'' (1 / 2)))
         (Some (Transform ''albumentations.RGBShift'' (1 / 2)))
         (Some (Transform ''albumentations.RandomBrightnessContrast'' (1 / 2)))
         (Some (Transform ''albumentations.Blur'' (1 / 2)))
         (Some (\<lambda>height width. RandomSizedBBoxSafeCrop height width (3 / 10)))
         (Some PadIfNeeded)
       = [SmallestMaxSize 512,
          Transform ''albumentations.HorizontalFlip'' (1 / 2),
          Transform ''albumentations.ShiftScaleRotate'' (1 / 2),
          Transform ''albumentations.RGBShift'' (1 / 2),
          Transform ''albumentations.RandomBrightnessContrast'' (1 / 2),
          Transform ''albumentations.Blur'' (1 / 2),
          OneOrOther (RandomSizedBBoxSafeCrop 384 384 (3 / 10)) (LongestMaxSize 384) (3 / 10),
          PadIfNeeded 384 384]"
    by (simp add: aug_tfms_def)
  have d: "aug_tfms (TupleSize 256 320) (Some (TupleSize 512 640)) None None None None None
         (Some (\<lambda>height width. RandomSizedBBoxSafeCrop height width (1 / 2)))
         (Some PadIfNeeded)
       = [Resize 512 640,
          OneOrOther (RandomSizedBBoxSafeCrop 256 320 (1 / 2)) (Resize 256 320) (1 / 2),
          PadIfNeeded 256 320]"
    by (simp add: aug_tfms_def)
  have e: "aug_tfms (TupleSize 256 320) None None None None None None None None
       = [Resize 256 320]"
    by (simp add: aug_tfms_def)
  from a b c d e show ?thesis
    by simp
qed

subsection \<open>Inversion of a call that returns\<close>

lemma bind_err_Inr: "bind_err m f = Inr r \<longleftrightarrow> (\<exists>x. m = Inr x \<and> f x = Inr r)"
  by (cases m) (simp_all add: bind_err_def)

lemma optionally_Inr:
  "optionally field f = Inr r \<longleftrightarrow>
     (case field of None \<Rightarrow> r = None | Some x \<Rightarrow> (\<exists>y. f x = Inr y \<and> r = Some y))"
  by (cases field) (auto simp add: optionally_def bind_err_Inr)

lemma reconstruct_InrE:
  assumes "reconstruct ops labels bboxes masks iscrowds kp hs d = Inr out"
  obtains height width channels kps where
    "d_image d = [height, width, channels]"
    "out_height out = height" "out_width out = width"
    "optionally kp (\<lambda>(keypoints, k, v).
        rebuild_keypoints ops keypoints k v hs (d_keypoints d) height width) = Inr kps"
    "out_keypoints out = map_option snd kps"
    "optionally labels (\<lambda>ls. rebuild ls (d_labels d) (map_option fst kps))
       = Inr (out_labels out)"
    "optionally bboxes
        (\<lambda>bs. rebuild_boxes ops hs (d_bboxes d) height width (map_option fst kps))
       = Inr (out_bboxes out)"
    "optionally masks (\<lambda>ms. rebuild (d_masks d) (d_labels d) (map_option fst kps))
       = Inr (out_masks out)"
    "optionally iscrowds (\<lambda>cs. rebuild cs (d_labels d) (map_option fst kps))
       = Inr (out_iscrowds out)"
proof -
  from assms obtain height width channels where s: "d_image d = [height, width, channels]"
    by (auto simp add: reconstruct_def split: list.splits)
  from assms that [OF s] show ?thesis
    unfolding reconstruct_def s Let_def
    by (auto simp add: bind_err_Inr)
qed

lemma Adapter_apply_Inr:
  assumes "Adapter_apply fl run self img labels bboxes masks iscrowds keypoints = (Inr out, self')"
  shows "\<exists>kp c hs d.
           run (processors self')
             \<lparr>p_image = img,
              p_labels = (case labels of Some ls \<Rightarrow> [0..<length ls] | None \<Rightarrow> []),
              p_bboxes = (case bboxes of Some bs \<Rightarrow> bs | None \<Rightarrow> []),
              p_keypoints = map_option (\<lambda>(kps, k, v). k) kp,
              p_keypoints_labels = c,
              p_masks = masks\<rparr> = Inr d
         \<and> reconstruct (tfms_list self) labels bboxes masks iscrowds kp hs d = Inr out
         \<and> (case keypoints of
              None \<Rightarrow> kp = None \<and> c = None \<and> hs = None
            | Some kps \<Rightarrow>
                (\<exists>k cc v. flatten_keypoints fl (tfms_list self) img kps = Inr (k, cc, v, hs)
                   \<and> kp = Some (kps, k, v) \<and> c = Some cc))"
proof (cases keypoints)
  case None
  with assms show ?thesis
    by (auto simp add: Adapter_apply_def Let_def bind_err_Inr)
next
  case (Some kps)
  show ?thesis
  proof (cases "flatten_keypoints fl (tfms_list self) img kps")
    case (Inl e)
    with assms Some show ?thesis
      by (simp add: Adapter_apply_def Let_def bind_err_def)
  next
    case (Inr r)
    obtain k cc v hs where r: "r = (k, cc, v, hs)" by (cases r) auto
    from assms Some Inr r show ?thesis
      by (auto simp add: Adapter_apply_def Let_def bind_err_def split: sum.splits)
  qed
qed

lemma clip_boxes_Inr:
  assumes "clip_boxes ops hs boxes height width = Inr bb"
  shows "length bb = length boxes"
  using assms by (auto simp add: clip_boxes_def split: if_splits option.splits)

lemma keep_length:
  "length (keep l xs) = length (filter (\<lambda>g. sum_list g > 0) (take (length xs) l))"
proof (induction xs arbitrary: l)
  case Nil
  then show ?case by (simp add: keep_def)
next
  case (Cons x xs)
  show ?case
  proof (cases l)
    case Nil
    then show ?thesis by (simp add: keep_def)
  next
    case (Cons g gs)
    with Cons.IH [of gs] show ?thesis by (simp add: keep_def)
  qed
qed

lemma rebuild_length:
  assumes "rebuild xs idxs l = Inr r"
  shows "length r = (case l of None \<Rightarrow> length idxs | Some g \<Rightarrow> length (keep g idxs))"
  using assms
  by (auto simp add: rebuild_def bind_err_Inr index_all_def split: if_splits option.splits)

lemma rebuild_boxes_length:
  assumes "rebuild_boxes ops hs boxes height width l = Inr r"
  shows "length r = (case l of None \<Rightarrow> length boxes | Some g \<Rightarrow> length (keep g boxes))"
proof -
  from assms obtain bb where bb: "clip_boxes ops hs boxes height width = Inr bb"
    and r: "r = (case l of None \<Rightarrow> bb | Some g \<Rightarrow> keep g bb)"
    by (auto simp add: rebuild_boxes_def bind_err_Inr)
  from clip_boxes_Inr [OF bb] r show ?thesis
    by (simp add: keep_length split: option.splits)
qed

subsection \<open>The crop and keypoint check\<close>

lemma get_transform_OneOrOther:
  "OneOrOther a b q \<in> set ops \<Longrightarrow> get_transform ops ''OneOrOther'' \<noteq> None"
proof (induction ops)
  case Nil
  then show ?case by simp
next
  case (Cons el els)
  show ?case
  proof (cases "el = OneOrOther a b q")
    case True
    then show ?thesis by simp
  next
    case False
    with Cons show ?thesis by simp
  qed
qed

text \<open>
  C2: when the operation list contains a \<open>OneOrOther\<close> step and keypoints are
  supplied, \<open>Adapter_apply\<close> raises the error of the assertion on lines 120-122 (the
  spec's ConfigurationError is this AssertionError). The result is the same for every
  pipeline \<open>run\<close>, so the pipeline is not called, and the adapter is left as it was.
\<close>

theorem apply_crop_with_keypoints_raises:
  assumes "OneOrOther a b q \<in> set (tfms_list self)"
  shows "Adapter_apply fl run self img labels bboxes masks iscrowds (Some kps)
           = (Inl AssertionError, self)"
proof -
  have "flatten_keypoints fl (tfms_list self) img kps = Inl AssertionError"
    using get_transform_OneOrOther [OF assms] by (simp add: flatten_keypoints_def)
  then show ?thesis
    by (simp add: Adapter_apply_def bind_err_def)
qed

theorem apply_crop_with_keypoints_raises_witness:
  "OneOrOther (RandomSizedBBoxSafeCrop 384 384 (1 / 2)) (LongestMaxSize 384) (1 / 2)
     \<in> set (tfms_list (Adapter crop_ops))
   \<and> Adapter_apply (\<lambda>x. x) (unchanged :: string set \<Rightarrow> nat params \<Rightarrow> error + nat compose_out)
        (Adapter crop_ops) [300, 500, 3] (Some [7]) (Some [(0, 10, 50, 50)]) None None
        (Some [\<lparr>kp_xy = [(10, 150)], kp_labels = [''nose''], kp_visible = [1]\<rparr>])
       = (Inl AssertionError, Adapter crop_ops)"
proof -
  have m: "OneOrOther (RandomSizedBBoxSafeCrop 384 384 (1 / 2)) (LongestMaxSize 384) (1 / 2)
     \<in> set (tfms_list (Adapter crop_ops))"
    by (simp add: crop_ops_def Adapter_def aug_tfms_def)
  from apply_crop_with_keypoints_raises [OF m] m show ?thesis
    by simp
qed

subsection \<open>The processors of the adapter\<close>

text \<open>
  C8, as stated, says that the registered processors are the same before and after
  every call. A call without bboxes and keypoints on a fresh adapter leaves it with no
  processor at all.
\<close>

theorem apply_pops_processor_counterexample:
  "snd (Adapter_apply (\<lambda>x. x) (unchanged :: string set \<Rightarrow> nat params \<Rightarrow> error + nat compose_out)
          (Adapter [LongestMaxSize 500]) [300, 500, 3] (Some [7]) None None None None)
     = \<lparr>tfms_list = [LongestMaxSize 500], processors = {}\<rparr>
   \<and> snd (Adapter_apply (\<lambda>x. x) (unchanged :: string set \<Rightarrow> nat params \<Rightarrow> error + nat compose_out)
          (Adapter [LongestMaxSize 500]) [300, 500, 3] (Some [7]) None None None None)
     \<noteq> Adapter [LongestMaxSize 500]"
  by (simp add: Adapter_apply_def Adapter_def Let_def)

text \<open>
  C8 (amended): a call never changes the operation list. A call that gets past the
  keypoint checks of lines 119-146 removes the processor \<^verbatim>\<open>bboxes\<close> from the adapter
  when bboxes is \<^verbatim>\<open>None\<close> and the processor \<^verbatim>\<open>keypoints\<close> when keypoints is
  \<^verbatim>\<open>None\<close>, and the adapter stays so for later calls; a call with both bboxes and
  keypoints, and a call whose keypoint checks raise, leave the adapter as it was.
\<close>

theorem apply_leaves_adapter:
  "snd (Adapter_apply fl run self img labels bboxes masks iscrowds keypoints) =
     (case keypoints of
        None \<Rightarrow>
          self\<lparr>processors :=
                 processors self - (if bboxes = None then {''bboxes''} else {}) - {''keypoints''}\<rparr>
      | Some kps \<Rightarrow>
          (case flatten_keypoints fl (tfms_list self) img kps of
             Inl e \<Rightarrow> self
           | Inr r \<Rightarrow>
               self\<lparr>processors :=
                      processors self - (if bboxes = None then {''bboxes''} else {})\<rparr>))"
  by (simp add: Adapter_apply_def bind_err_def Let_def split: option.split sum.split prod.split)

subsection \<open>Cardinality of the returned fields\<close>

text \<open>
  C1: for every call in which labels, bboxes, masks and iscrowds are all supplied, with
  or without keypoints, the returned record has as many labels as boxes, masks and
  crowd flags. The sample is aligned (as many labels as boxes), and the external
  pipeline keeps its label field aligned with its boxes, which is what
  \<^verbatim>\<open>label_fields=["labels"]\<close> asks of it.
\<close>

theorem apply_cardinality:
  assumes ret: "Adapter_apply fl run self img (Some labels) (Some bboxes) (Some masks)
                  (Some iscrowds) keypoints = (Inr out, self')"
    and contract: "\<forall>procs ps d. run procs ps = Inr d \<longrightarrow>
                     length (p_labels ps) = length (p_bboxes ps) \<longrightarrow>
                     length (d_labels d) = length (d_bboxes d)"
    and aligned: "length labels = length bboxes"
  shows "\<exists>ls bs ms cs.
           out_labels out = Some ls \<and> out_bboxes out = Some bs
         \<and> out_masks out = Some ms \<and> out_iscrowds out = Some cs
         \<and> length ls = length bs \<and> length bs = length ms \<and> length ms = length cs"
proof -
  from Adapter_apply_Inr [OF ret] obtain kp c hs d where
    run: "run (processors self')
             \<lparr>p_image = img,
              p_labels = [0..<length labels],
              p_bboxes = bboxes,
              p_keypoints = map_option (\<lambda>(kps, k, v). k) kp,
              p_keypoints_labels = c,
              p_masks = Some masks\<rparr> = Inr d"
    and rec: "reconstruct (tfms_list self) (Some labels) (Some bboxes) (Some masks)
                (Some iscrowds) kp hs d = Inr out"
    by auto
  from contract [rule_format, OF run] aligned have len: "length (d_labels d) = length (d_bboxes d)"
    by simp
  from rec show ?thesis
  proof (cases rule: reconstruct_InrE)
    case (1 height width channels kps)
    note ol = 1(6) and ob = 1(7) and om = 1(8) and oc = 1(9)
  from ol obtain ls where
    l: "out_labels out = Some ls" "rebuild labels (d_labels d) (map_option fst kps) = Inr ls"
    by (auto simp add: optionally_Inr)
  from ob obtain bs where
    b: "out_bboxes out = Some bs"
      "rebuild_boxes (tfms_list self) hs (d_bboxes d) height width (map_option fst kps) = Inr bs"
    by (auto simp add: optionally_Inr)
  from om obtain ms where
    m: "out_masks out = Some ms"
      "rebuild (d_masks d) (d_labels d) (map_option fst kps) = Inr ms"
    by (auto simp add: optionally_Inr)
  from oc obtain cs where
    c: "out_iscrowds out = Some cs"
      "rebuild iscrowds (d_labels d) (map_option fst kps) = Inr cs"
    by (auto simp add: optionally_Inr)
  have "length ls = length bs"
    using rebuild_length [OF l(2)] rebuild_boxes_length [OF b(2)] len
    by (simp add: keep_length split: option.splits)
  moreover have "length bs = length ms"
    using rebuild_length [OF m(2)] rebuild_boxes_length [OF b(2)] len
    by (simp add: keep_length split: option.splits)
  moreover have "length ms = length cs"
    using rebuild_length [OF m(2)] rebuild_length [OF c(2)]
    by (simp split: option.splits)
  ultimately show ?thesis using l(1) b(1) m(1) c(1) by simp
  qed
qed

theorem apply_cardinality_witness:
  "Adapter_apply (\<lambda>x. x) (unchanged :: string set \<Rightarrow> nat params \<Rightarrow> error + nat compose_out)
       (Adapter [LongestMaxSize 500]) [300, 500, 3]
       (Some [7, 8]) (Some [(10, 120, 60, 180), (100, 120, 200, 220)]) (Some [100, 101])
       (Some [0, 1])
       (Some [\<lparr>kp_xy = [(10, 150)], kp_labels = [''nose''], kp_visible = [1]\<rparr>,
              \<lparr>kp_xy = [(0, 0)], kp_labels = [''nose''], kp_visible = [0]\<rparr>])
     = (Inr \<lparr>out_img = [300, 500, 3], out_height = 300, out_width = 500,
             out_keypoints = Some [from_xyv [10, 150, 1] [''nose'']],
             out_labels = Some [7], out_bboxes = Some [(10, 120, 60, 180)],
             out_masks = Some [100], out_iscrowds = Some [0]\<rparr>,
        Adapter [LongestMaxSize 500])
   \<and> length [7, 8 :: int] = length [(10, 120, 60, 180), (100, 120, 200, 220) :: xyxy]
   \<and> (\<exists>ls bs ms cs.
         out_labels \<lparr>out_img = [300, 500, 3], out_height = 300, out_width = 500,
             out_keypoints = Some [from_xyv [10, 150, 1] [''nose'']],
             out_labels = Some [7], out_bboxes = Some [(10, 120, 60, 180)],
             out_masks = Some [100 :: nat], out_iscrowds = Some [0]\<rparr> = Some ls
       \<and> out_bboxes \<lparr>out_img = [300, 500, 3], out_height = 300, out_width = 500,
             out_keypoints = Some [from_xyv [10, 150, 1] [''nose'']],
             out_labels = Some [7], out_bboxes = Some [(10, 120, 60, 180)],
             out_masks = Some [100 :: nat], out_iscrowds = Some [0]\<rparr> = Some bs
       \<and> out_masks \<lparr>out_img = [300, 500, 3], out_height = 300, out_width = 500,
             out_keypoints = Some [from_xyv [10, 150, 1] [''nose'']],
             out_labels = Some [7], out_bboxes = Some [(10, 120, 60, 180)],
             out_masks = Some [100 :: nat], out_iscrowds = Some [0]\<rparr> = Some ms
       \<and> out_iscrowds \<lparr>out_img = [300, 500, 3], out_height = 300, out_width = 500,
             out_keypoints = Some [from_xyv [10, 150, 1] [''nose'']],
             out_labels = Some [7], out_bboxes = Some [(10, 120, 60, 180)],
             out_masks = Some [100 :: nat], out_iscrowds = Some [0]\<rparr> = Some cs
       \<and> length ls = length bs \<and> length bs = length ms \<and> length ms = length cs)"
proof -
  have ret: "Adapter_apply (\<lambda>x. x) (unchanged :: string set \<Rightarrow> nat params \<Rightarrow> error + nat compose_out)
       (Adapter [LongestMaxSize 500]) [300, 500, 3]
       (Some [7, 8]) (Some [(10, 120, 60, 180), (100, 120, 200, 220)]) (Some [100, 101])
       (Some [0, 1])
       (Some [\<lparr>kp_xy = [(10, 150)], kp_labels = [''nose''], kp_visible = [1]\<rparr>,
              \<lparr>kp_xy = [(0, 0)], kp_labels = [''nose''], kp_visible = [0]\<rparr>])
     = (Inr \<lparr>out_img = [300, 500, 3], out_height = 300, out_width = 500,
             out_keypoints = Some [from_xyv [10, 150, 1] [''nose'']],
             out_labels = Some [7], out_bboxes = Some [(10, 120, 60, 180)],
             out_masks = Some [100], out_iscrowds = Some [0]\<rparr>,
        Adapter [LongestMaxSize 500])"
    by code_simp
  have contract: "\<forall>procs (ps :: nat params) d. unchanged procs ps = Inr d \<longrightarrow>
                     length (p_labels ps) = length (p_bboxes ps) \<longrightarrow>
                     length (d_labels d) = length (d_bboxes d)"
    by (auto simp add: unchanged_def)
  have aligned: "length [7, 8 :: int] = length [(10, 120, 60, 180), (100, 120, 200, 220) :: xyxy]"
    by simp
  from apply_cardinality [OF ret contract aligned] ret aligned show ?thesis
    by blast
qed

subsection \<open>Boxes without keypoints\<close>

text \<open>
  C10: when keypoints are absent, the returned boxes must be one clipped box for every
  box the pipeline returned, also on a padded canvas. The names
  \<^verbatim>\<open>height_size, width_size\<close> are bound only under \<^verbatim>\<open>if keypoints is not None\<close>
  (lines 119-146) and read on line 190: with a pad in the operation list, no keypoints
  and at least one box returned by the pipeline, the call raises NameError and returns
  no box at all, whatever the pipeline returned. The sibling paths do return the
  clipped boxes: with keypoints the names are bound, and without a pad line 194 uses
  the size of the output image.
\<close>

theorem apply_padded_boxes_raise:
  assumes pad: "get_transform (tfms_list self) ''Pad'' \<noteq> None"
    and run: "run (processors self - {''keypoints''})
               \<lparr>p_image = img,
                p_labels = [0..<length labels],
                p_bboxes = bboxes,
                p_keypoints = None,
                p_keypoints_labels = None,
                p_masks = masks\<rparr> = Inr d"
    and shape: "d_image d = [height, width, channels]"
    and idxs: "list_all (\<lambda>i. i < length labels) (d_labels d)"
    and boxes: "d_bboxes d \<noteq> []"
  shows "Adapter_apply fl run self img (Some labels) (Some bboxes) masks iscrowds None
           = (Inl NameError, self\<lparr>processors := processors self - {''keypoints''}\<rparr>)"
proof -
  have l: "rebuild labels (d_labels d) None = Inr (map (\<lambda>i. labels ! i) (d_labels d))"
    using idxs by (simp add: rebuild_def index_all_def bind_err_def)
  have b: "rebuild_boxes (tfms_list self) None (d_bboxes d) height width None = Inl NameError"
    using pad boxes by (simp add: rebuild_boxes_def clip_boxes_def bind_err_def)
  have "reconstruct (tfms_list self) (Some labels) (Some bboxes) masks iscrowds None None d
          = Inl NameError"
    by (simp add: reconstruct_def shape optionally_def bind_err_def l b)
  with run show ?thesis
    by (simp add: Adapter_apply_def Let_def bind_err_def)
qed

theorem apply_padded_boxes_raise_witness:
  "get_transform (tfms_list (Adapter (resize_and_pad (IntSize 500) PadIfNeeded))) ''Pad''
     = Some (PadIfNeeded 500 500)
   \<and> Adapter_apply (\<lambda>x. x)
        (\<lambda>procs ps. Inr \<lparr>d_image = [500, 500, 3], d_labels = [0],
                            d_bboxes = [(0, 110, 50, 150)], d_keypoints = [],
                            d_masks = ([] :: nat list)\<rparr>)
        (Adapter (resize_and_pad (IntSize 500) PadIfNeeded)) [300, 500, 3]
        (Some [7]) (Some [(0, 10, 50, 50)]) None None None
       = (Inl NameError,
          \<lparr>tfms_list = [LongestMaxSize 500, PadIfNeeded 500 500],
             processors = {''bboxes''}\<rparr>)"
proof -
  have pad: "get_transform (tfms_list (Adapter (resize_and_pad (IntSize 500) PadIfNeeded)))
               ''Pad'' = Some (PadIfNeeded 500 500)"
    by (simp add: Adapter_def resize_and_pad_def)
  then have pad': "get_transform (tfms_list (Adapter (resize_and_pad (IntSize 500) PadIfNeeded)))
               ''Pad'' \<noteq> None"
    by simp
  have a: "(Adapter (resize_and_pad (IntSize 500) PadIfNeeded))
             \<lparr>processors := processors (Adapter (resize_and_pad (IntSize 500) PadIfNeeded))
                              - {''keypoints''}\<rparr>
           = \<lparr>tfms_list = [LongestMaxSize 500, PadIfNeeded 500 500],
              processors = {''bboxes''}\<rparr>"
    by (auto simp add: Adapter_def resize_and_pad_def)
  from apply_padded_boxes_raise
    [of "Adapter (resize_and_pad (IntSize 500) PadIfNeeded)"
        "\<lambda>procs ps. Inr \<lparr>d_image = [500, 500, 3], d_labels = [0],
                            d_bboxes = [(0, 110, 50, 150)], d_keypoints = [],
                            d_masks = ([] :: nat list)\<rparr>"
        "[300, 500, 3]" "[7]" "[(0, 10, 50, 50)]" None _ 500 500 3 "\<lambda>x. x" None, OF pad']
    pad a
  show ?thesis by simp
qed

subsection \<open>Regrouping of the keypoints\<close>

lemma chunks_Nil [simp]: "chunks n [] = []"
  by (simp add: chunks.simps)

lemma chunks_step:
  "n > 0 \<Longrightarrow> xs \<noteq> [] \<Longrightarrow> chunks n xs = take n xs # chunks n (drop n xs)"
  by (subst chunks.simps) simp

lemma flat3_Nil [simp]: "flat3 [] = []"
  by (simp add: flat3_def)

lemma flat3_Cons [simp]: "flat3 ((x, y, vis) # ts) = x # y # vis # flat3 ts"
  by (simp add: flat3_def)

lemma flat3_eq_Nil [simp]: "flat3 ts = [] \<longleftrightarrow> ts = []"
  by (cases ts) auto

lemma length_flat3: "length (flat3 ts) = 3 * length ts"
  by (induction ts) auto

lemma take3: "take (3 * Suc m) (x # y # z # r) = x # y # z # take (3 * m) r"
  by (simp add: take_Cons')

lemma drop3: "drop (3 * Suc m) (x # y # z # r) = drop (3 * m) r"
  by (simp add: drop_Cons')

lemma flat3_take: "flat3 (take n ts) = take (3 * n) (flat3 ts)"
proof (induction ts arbitrary: n)
  case Nil
  then show ?case by simp
next
  case (Cons t ts)
  obtain x y vis where t: "t = (x, y, vis)" by (cases t) auto
  show ?case
  proof (cases n)
    case 0
    then show ?thesis by simp
  next
    case (Suc m)
    with Cons.IH [of m] t show ?thesis by (simp only: take_Suc_Cons flat3_Cons take3)
  qed
qed

lemma flat3_drop: "flat3 (drop n ts) = drop (3 * n) (flat3 ts)"
proof (induction ts arbitrary: n)
  case Nil
  then show ?case by simp
next
  case (Cons t ts)
  obtain x y vis where t: "t = (x, y, vis)" by (cases t) auto
  show ?case
  proof (cases n)
    case 0
    then show ?thesis by simp
  next
    case (Suc m)
    with Cons.IH [of m] t show ?thesis by (simp only: drop_Suc_Cons flat3_Cons drop3)
  qed
qed

lemma chunks_flat3:
  "n > 0 \<Longrightarrow> chunks (3 * n) (flat3 ts) = map flat3 (chunks n ts)"
proof (induction n ts rule: chunks.induct)
  case (1 n xs)
  show ?case
  proof (cases "xs = []")
    case True
    then show ?thesis by simp
  next
    case False
    with 1 show ?thesis
      by (simp add: chunks_step flat3_take flat3_drop)
  qed
qed

lemma chunks_slices:
  "n > 0 \<Longrightarrow> length xs = m * n \<Longrightarrow>
   chunks n xs = map (\<lambda>j. take n (drop (j * n) xs)) [0..<m]"
proof (induction m arbitrary: xs)
  case 0
  then show ?case by simp
next
  case (Suc m)
  from Suc.prems have ne: "xs \<noteq> []" by auto
  from Suc.prems have len: "length (drop n xs) = m * n" by simp
  have "map (\<lambda>j. take n (drop (j * n) xs)) [0..<Suc m]
          = take n xs # map (\<lambda>j. take n (drop (Suc j * n) xs)) [0..<m]"
    by (simp add: upt_conv_Cons map_Suc_upt [symmetric] del: upt_Suc)
  also have "map (\<lambda>j. take n (drop (Suc j * n) xs)) [0..<m]
          = map (\<lambda>j. take n (drop (j * n) (drop n xs))) [0..<m]"
    by (simp add: add.commute)
  also have "\<dots> = chunks n (drop n xs)"
    using Suc.IH [OF Suc.prems(1) len] by simp
  finally show ?case
    using Suc.prems(1) ne by (simp add: chunks_step)
qed

lemma regroup_uniform:
  assumes "n > 0" "m > 0" "length ts = m * n"
  shows "regroup (flat3 ts) m = Inr (map (\<lambda>j. flat3 (take n (drop (j * n) ts))) [0..<m])"
proof -
  have step: "length (flat3 ts) div m = 3 * n"
    using assms by (simp add: length_flat3)
  have "chunks (3 * n) (flat3 ts) = map flat3 (chunks n ts)"
    using assms(1) by (rule chunks_flat3)
  also have "\<dots> = map (\<lambda>j. flat3 (take n (drop (j * n) ts))) [0..<m]"
    using chunks_slices [OF assms(1,3)] by simp
  finally have c: "chunks (3 * n) (flat3 ts)
                     = map (\<lambda>j. flat3 (take n (drop (j * n) ts))) [0..<m]" .
  show ?thesis
    using assms(1,2) by (simp add: regroup_def step c Let_def)
qed

lemma filter_keypoints_length:
  "filter_keypoints ps h w v = Inr ts \<Longrightarrow> length ts = length ps"
proof (induction ps h w v arbitrary: ts rule: filter_keypoints.induct)
  case (1 h w v)
  then show ?case by simp
next
  case (2 p ps h w)
  then show ?case by simp
next
  case (3 p ps h w vi vs)
  then show ?case by (auto split: sum.splits)
qed

lemma length_concat_uniform:
  "\<forall>x \<in> set xs. length (f x) = n \<Longrightarrow> length (concat (map f xs)) = length xs * n"
  by (induction xs) auto

lemma regroup_short: "length l < m \<Longrightarrow> regroup l m \<noteq> Inr g"
  by (simp add: regroup_def Let_def)

lemma regroup_Inr:
  assumes "regroup l m = Inr g"
  shows "g = chunks (length l div m) l \<and> length g = m \<and> m > 0 \<and> length l div m > 0"
  using assms by (auto simp add: regroup_def Let_def split: if_splits)

text \<open>
  C7, as stated, regroups by each instance's own point count and pairs each group with
  that instance's own labels. With one point in the first instance and three in the
  second, the call returns two groups of two points each, both with the labels of the
  first instance.
\<close>

theorem regroup_own_count_counterexample:
  "Adapter_apply (\<lambda>x. x) (unchanged :: string set \<Rightarrow> nat params \<Rightarrow> error + nat compose_out)
       (Adapter [LongestMaxSize 500]) [300, 500, 3] None None None None
       (Some [\<lparr>kp_xy = [(10, 150)], kp_labels = [''nose''], kp_visible = [1]\<rparr>,
              \<lparr>kp_xy = [(20, 160), (30, 170), (40, 180)],
               kp_labels = [''hip'', ''knee'', ''foot''], kp_visible = [1, 1, 1]\<rparr>])
     = (Inr \<lparr>out_img = [300, 500, 3], out_height = 300, out_width = 500,
             out_keypoints = Some [from_xyv [10, 150, 1, 20, 160, 1] [''nose''],
                                   from_xyv [30, 170, 1, 40, 180, 1] [''nose'']],
             out_labels = None, out_bboxes = None, out_masks = None, out_iscrowds = None\<rparr>,
        \<lparr>tfms_list = [LongestMaxSize 500], processors = {''keypoints''}\<rparr>)"
  by code_simp

text \<open>
  C7 (amended): the flat sequence of filtered points is cut into as many consecutive
  groups as there are instances, all of the size \<^verbatim>\<open>len(l) // len(keypoints)\<close>, and
  every group of positive sum is returned with the labels of the first instance. When
  every instance has the same number \<open>n\<close> of points, group \<open>j\<close> is exactly the filtered
  points at the positions \<open>j * n, ..., j * n + n - 1\<close> of the flat sequence, which are
  the points of instance \<open>j\<close>.
\<close>

theorem regroup_equal_counts:
  assumes ret: "rebuild_keypoints ops keypoints k v hs tfms_kps height width = Inr (l, ks)"
  shows "\<exists>ts kp0 others.
           keypoints = kp0 # others
         \<and> (if get_transform ops ''Pad'' \<noteq> None
              then (case hs of
                      None \<Rightarrow> Inl NameError
                    | Some (height_size, width_size) \<Rightarrow>
                        filter_keypoints tfms_kps height_size width_size v)
              else filter_keypoints tfms_kps height width v) = Inr ts
         \<and> length ts = length k
         \<and> l = chunks (length (flat3 ts) div length keypoints) (flat3 ts)
         \<and> length l = length keypoints
         \<and> ks = map (\<lambda>g. from_xyv g (kp_labels kp0)) (filter (\<lambda>g. sum_list g > 0) l)
         \<and> (k = concat (map kp_xy keypoints)
              \<and> (\<forall>inst \<in> set keypoints. length (kp_xy inst) = n)
            \<longrightarrow> l = map (\<lambda>j. flat3 (take n (drop (j * n) ts))) [0..<length keypoints])"
proof -
  from ret obtain l0 where g0: "kp_groups ops k v hs (length keypoints) tfms_kps height width = Inr l0"
    and c: "(case keypoints of
               [] \<Rightarrow> Inl IndexError
             | kp0 # others \<Rightarrow>
                 Inr (l0, map (\<lambda>g. from_xyv g (kp_labels kp0))
                            (filter (\<lambda>g. sum_list g > 0) l0))) = Inr (l, ks)"
    unfolding rebuild_keypoints_def bind_err_Inr by blast
  from c obtain kp0 others where kps: "keypoints = kp0 # others"
    by (cases keypoints) auto
  from c kps have l0: "l0 = l"
    and ks: "ks = map (\<lambda>g. from_xyv g (kp_labels kp0)) (filter (\<lambda>g. sum_list g > 0) l)"
    by auto
  from g0 l0 have g: "kp_groups ops k v hs (length keypoints) tfms_kps height width = Inr l"
    by simp
  from g have len: "length tfms_kps = length k"
    by (auto simp add: kp_groups_def split: if_splits)
  from g len obtain ts where
    f: "(if get_transform ops ''Pad'' \<noteq> None
         then (case hs of
                 None \<Rightarrow> Inl NameError
               | Some (height_size, width_size) \<Rightarrow>
                   filter_keypoints tfms_kps height_size width_size v)
         else filter_keypoints tfms_kps height width v) = Inr ts"
    and r: "regroup (flat3 ts) (length keypoints) = Inr l"
    by (auto simp add: kp_groups_def bind_err_Inr)
  from f have "length ts = length tfms_kps"
    by (auto dest: filter_keypoints_length split: if_splits option.splits)
  with len have lts: "length ts = length k" by simp
  note rg = regroup_Inr [OF r]
  have m: "length keypoints > 0" using kps by simp
  have u: "l = map (\<lambda>j. flat3 (take n (drop (j * n) ts))) [0..<length keypoints]"
    if k: "k = concat (map kp_xy keypoints)"
      and uniform: "\<forall>inst \<in> set keypoints. length (kp_xy inst) = n"
  proof -
    from lts k length_concat_uniform [OF uniform]
    have ltn: "length ts = length keypoints * n" by simp
    have n: "n > 0"
    proof (rule ccontr)
      assume "\<not> n > 0"
      with ltn have "length (flat3 ts) < length keypoints"
        using m by (simp add: length_flat3)
      from regroup_short [OF this, of l] r show False by simp
    qed
    from regroup_uniform [OF n m ltn] r show ?thesis by simp
  qed
  from kps f lts rg ks u show ?thesis by blast
qed

theorem regroup_equal_counts_witness:
  "rebuild_keypoints [LongestMaxSize 500]
       [\<lparr>kp_xy = [(10, 150), (20, 160)], kp_labels = [''a'', ''b''], kp_visible = [1, 2]\<rparr>,
        \<lparr>kp_xy = [(30, 170), (40, 180)], kp_labels = [''a'', ''b''], kp_visible = [2, 1]\<rparr>]
       [(10, 150), (20, 160), (30, 170), (40, 180)] [1, 2, 2, 1] None
       [(10, 150), (20, 160), (30, 170), (40, 180)] 300 500
     = Inr ([flat3 [(10, 150, 1), (20, 160, 2)], flat3 [(30, 170, 2), (40, 180, 1)]],
            [from_xyv [10, 150, 1, 20, 160, 2] [''a'', ''b''],
             from_xyv [30, 170, 2, 40, 180, 1] [''a'', ''b'']])
   \<and> (\<exists>ts. filter_keypoints [(10, 150), (20, 160), (30, 170), (40, 180)] 300 500 [1, 2, 2, 1]
             = Inr ts
          \<and> [flat3 [(10, 150, 1), (20, 160, 2)], flat3 [(30, 170, 2), (40, 180, 1)]]
             = [flat3 (take 2 ts), flat3 (take 2 (drop 2 ts))])"
proof -
  have ret: "rebuild_keypoints [LongestMaxSize 500]
       [\<lparr>kp_xy = [(10, 150), (20, 160)], kp_labels = [''a'', ''b''], kp_visible = [1, 2]\<rparr>,
        \<lparr>kp_xy = [(30, 170), (40, 180)], kp_labels = [''a'', ''b''], kp_visible = [2, 1]\<rparr>]
       [(10, 150), (20, 160), (30, 170), (40, 180)] [1, 2, 2, 1] None
       [(10, 150), (20, 160), (30, 170), (40, 180)] 300 500
     = Inr ([flat3 [(10, 150, 1), (20, 160, 2)], flat3 [(30, 170, 2), (40, 180, 1)]],
            [from_xyv [10, 150, 1, 20, 160, 2] [''a'', ''b''],
             from_xyv [30, 170, 2, 40, 180, 1] [''a'', ''b'']])"
    by code_simp
  have p: "get_transform [LongestMaxSize 500] ''Pad'' = None"
    by code_simp
  from regroup_equal_counts [OF ret, of 2] ret p show ?thesis
    by (simp add: upt_rec)
qed

subsection \<open>Removal of an instance without visible keypoints\<close>

text \<open>
  C3: an instance whose keypoint group is all zero must be absent from every returned
  field. The call below evaluates the code where the pipeline removed the box of the
  first instance: \<^verbatim>\<open>zip(d["labels"], l)\<close> pairs the surviving indices 1 and 2 with
  the groups of instances 0 and 1, so the third instance, whose only keypoint is
  (0, 0, 0), keeps its label 30, its box, its mask and its crowd flag, while its
  keypoint group is removed.
\<close>

theorem apply_misaligned_drop:
  "Adapter_apply (\<lambda>x. x) (shift_left :: string set \<Rightarrow> nat params \<Rightarrow> error + nat compose_out)
       (Adapter [Transform ''albumentations.ShiftScaleRotate'' (1 / 2)]) [500, 500, 3]
       (Some [10, 20, 30])
       (Some [(10, 10, 60, 60), (200, 200, 300, 300), (300, 300, 400, 400)])
       (Some [100, 101, 102])
       (Some [0, 0, 1])
       (Some [\<lparr>kp_xy = [(150, 30)], kp_labels = [''nose''], kp_visible = [1]\<rparr>,
              \<lparr>kp_xy = [(250, 250)], kp_labels = [''nose''], kp_visible = [1]\<rparr>,
              \<lparr>kp_xy = [(0, 0)], kp_labels = [''nose''], kp_visible = [0]\<rparr>])
     = (Inr \<lparr>out_img = [500, 500, 3], out_height = 500, out_width = 500,
             out_keypoints = Some [from_xyv [50, 30, 1] [''nose''],
                                   from_xyv [150, 250, 1] [''nose'']],
             out_labels = Some [20, 30],
             out_bboxes = Some [(100, 200, 200, 300), (200, 300, 300, 400)],
             out_masks = Some [101, 102],
             out_iscrowds = Some [0, 1]\<rparr>,
        Adapter [Transform ''albumentations.ShiftScaleRotate'' (1 / 2)])"
  by code_simp

end
